theory Spec2Isabelle
  imports Main "HOL-Library.Word"
begin

section \<open>The image feature of datasets: src/datasets/features/image.py\<close>

text \<open>
  The module defines the extension type \<open>_ImageExtensionType\<close>, the feature class
  \<open>Image\<close> with \<open>encode_example\<close> and \<open>decode_example\<close>, and the helpers
  \<open>image_to_bytes\<close> and \<open>encode_list_of_images\<close>. The embedding below follows the
  module top to bottom. Python objects are values of one datatype, exceptions are the
  left summand of a sum type, the assignment to \<open>self._storage_dtype\<close> is explicit state
  passing on the record of the feature, and the streams opened by \<open>xopen\<close> live in an
  explicit table of file objects.
\<close>

subsection \<open>Python values, classes and exceptions\<close>

type_synonym byte = "8 word"

text \<open>
  The image object that the codec library (Pillow) returns and consumes. The library is
  not part of the module; an image is its dimensions, its mode, the format it was read
  from and its pixel buffer. An image that \<open>PIL.Image.open\<close> has just returned is
  identified but not loaded: its pixel buffer is \<open>None\<close> until \<open>load()\<close> has read the
  pixel data from the stream.
\<close>

record DecodedImage =
  width :: nat
  height :: nat
  mode :: string
  pixel_buffer :: "byte list option"
  format_metadata :: string

text \<open>
  The values a caller can hand to \<open>encode_example\<close> and \<open>decode_example\<close>. A \<open>dict\<close> is
  an association list of key and value; a \<open>numpy.ndarray\<close> is its shape and its memory
  buffer.
\<close>

datatype pyval =
    PNone
  | PBool bool
  | PInt int
  | PStr string
  | PBytes "byte list"
  | PNdarray "nat list" "byte list"
  | PList "pyval list"
  | PDict "(pyval \<times> pyval) list"
  | PImage DecodedImage

datatype pyclass =
    Cls_NoneType
  | Cls_bool
  | Cls_int
  | Cls_str
  | Cls_bytes
  | Cls_ndarray
  | Cls_list
  | Cls_dict
  | Cls_PIL_Image
  | Cls_ImageExtensionType

datatype pyerr =
    ImportError
  | KeyError
  | TypeError
  | ValueError
  | UnboundLocalError
  | FileNotFoundError
  | UnidentifiedImageError
  | OSError

fun class_of :: "pyval \<Rightarrow> pyclass" where
  "class_of PNone = Cls_NoneType"
| "class_of (PBool b) = Cls_bool"
| "class_of (PInt n) = Cls_int"
| "class_of (PStr s) = Cls_str"
| "class_of (PBytes bs) = Cls_bytes"
| "class_of (PNdarray shape buf) = Cls_ndarray"
| "class_of (PList xs) = Cls_list"
| "class_of (PDict kvs) = Cls_dict"
| "class_of (PImage img) = Cls_PIL_Image"

text \<open>
  \<open>isinstance(value, (c1, ..., cn))\<close>. None of the classes tested by the module has a
  subclass among the values above, so the test is membership of the value's class.
\<close>

definition isinstance :: "pyval \<Rightarrow> pyclass list \<Rightarrow> bool" where
  "isinstance v cs = (class_of v \<in> set cs)"

subsection \<open>The extension type\<close>

text \<open>The physical Arrow types that the module builds with \<open>pyarrow\<close>.\<close>

datatype pa_datatype =
    Pa_string
  | Pa_binary
  | Pa_struct "(string \<times> pa_datatype) list"

text \<open>
  An instance of \<open>_ImageExtensionType\<close>: its class (the logical tag that
  \<open>pa.PyExtensionType\<close> keeps), the attribute \<open>storage_dtype\<close> and the storage type
  handed to \<open>pa.PyExtensionType.__init__\<close>.
\<close>

record ImageExtensionType =
  ext_class :: pyclass
  storage_dtype :: string
  storage_type :: pa_datatype

definition ImageExtensionType_init :: "string \<Rightarrow> ImageExtensionType" where
  "ImageExtensionType_init sd =
     (let pa_storage_dtype =
        (if sd = ''string'' then Pa_string
         else if sd = ''bytes'' then Pa_binary
         else Pa_struct [(''path'', Pa_string), (''bytes'', Pa_binary)])
      in \<lparr>ext_class = Cls_ImageExtensionType, storage_dtype = sd,
          storage_type = pa_storage_dtype\<rparr>)"

text \<open>\<open>__reduce__\<close>: the class and the 1-tuple of arguments to call it with.\<close>

definition ImageExtensionType_reduce :: "ImageExtensionType \<Rightarrow> pyclass \<times> string list" where
  "ImageExtensionType_reduce self = (ext_class self, [storage_dtype self])"

text \<open>
  What unpickling does with the pair returned by \<open>__reduce__\<close>: it calls the class on the
  argument tuple. Only \<open>_ImageExtensionType\<close> is a class of this module, and its
  constructor takes exactly one argument.
\<close>

fun reconstruct :: "pyclass \<times> string list \<Rightarrow> pyerr + ImageExtensionType" where
  "reconstruct (Cls_ImageExtensionType, [sd]) = Inr (ImageExtensionType_init sd)"
| "reconstruct (cls, args) = Inl TypeError"

subsection \<open>The feature class\<close>

text \<open>
  The dataclass \<open>Image\<close>. The fields \<open>_storage_dtype\<close>, \<open>id\<close> and \<open>_type\<close> of the source
  are \<open>x_storage_dtype\<close>, \<open>image_id\<close> and \<open>x_type\<close> here.
\<close>

record Image =
  x_storage_dtype :: string
  image_id :: "string option"
  x_type :: string

definition Image_default :: Image where
  "Image_default = \<lparr>x_storage_dtype = ''string'', image_id = None, x_type = ''Image''\<rparr>"

definition Image_call :: "Image \<Rightarrow> ImageExtensionType" where
  "Image_call self = ImageExtensionType_init (x_storage_dtype self)"

text \<open>
  \<open>encode_example\<close> returns its argument and the feature after the assignment to
  \<open>self._storage_dtype\<close>.
\<close>

definition encode_example :: "Image \<Rightarrow> pyval \<Rightarrow> pyval \<times> Image" where
  "encode_example self v =
     (if isinstance v [Cls_bytes, Cls_ndarray] then (v, self\<lparr>x_storage_dtype := ''bytes''\<rparr>)
      else if isinstance v [Cls_dict] then (v, self\<lparr>x_storage_dtype := ''struct''\<rparr>)
      else (v, self))"

subsection \<open>Streams and the collaborators of decoding\<close>

text \<open>
  The collaborators that the module imports: whether \<open>import PIL.Image\<close> succeeds, which
  image \<open>PIL.Image.open\<close> identifies in the content of a stream, which pixel data
  \<open>load()\<close> decodes from that content, which bytes \<open>image.save\<close> writes for a format,
  and what \<open>xopen(path, "rb")\<close> finds at a path. They are parameters of the model.
\<close>

record env =
  pil_installed :: bool
  pil_open :: "byte list \<Rightarrow> pyerr + DecodedImage"
  pil_decode :: "byte list \<Rightarrow> pyerr + byte list"
  pil_save :: "DecodedImage \<Rightarrow> string \<Rightarrow> pyerr + byte list"
  xopen_lookup :: "string \<Rightarrow> pyerr + byte list"

text \<open>
  A stream is an in-memory \<open>BytesIO\<close> with its content, or a file object of \<open>xopen\<close>,
  named by its index in the table of file objects.
\<close>

datatype stream =
    MemStream "byte list"
  | FileStream nat

datatype event =
    EvXOpen string
  | EvPilOpen stream
  | EvClose nat

text \<open>
  The part of the world that decoding touches: the file objects created by \<open>xopen\<close> so
  far, each with its content and whether it has been closed, and the calls made to the
  collaborators, oldest first.
\<close>

record world =
  handles :: "(byte list \<times> bool) list"
  events :: "event list"

definition open_handles :: "world \<Rightarrow> nat list" where
  "open_handles w = filter (\<lambda>h. \<not> snd (handles w ! h)) [0..<length (handles w)]"

text \<open>
  Modelled from the spec: \<open>xopen\<close> of \<open>utils/streaming_download_manager.py\<close>, the
  file-opening collaborator, "open(path, mode) \<rightarrow> scoped byte stream raises
  ResourceUnreadable". A failure creates no file object.
\<close>

definition xopen :: "env \<Rightarrow> string \<Rightarrow> world \<Rightarrow> (pyerr + stream) \<times> world" where
  "xopen e path w =
     (case xopen_lookup e path of
        Inl err \<Rightarrow> (Inl err, w\<lparr>events := events w @ [EvXOpen path]\<rparr>)
      | Inr content \<Rightarrow>
          (Inr (FileStream (length (handles w))),
           w\<lparr>handles := handles w @ [(content, False)],
             events := events w @ [EvXOpen path]\<rparr>))"

text \<open>Leaving a \<open>with\<close> block closes the file object; a \<open>BytesIO\<close> holds no resource.\<close>

fun stream_close :: "stream \<Rightarrow> world \<Rightarrow> world" where
  "stream_close (MemStream bs) w = w"
| "stream_close (FileStream h) w =
     (if h < length (handles w)
      then w\<lparr>handles := (handles w)[h := (fst (handles w ! h), True)],
             events := events w @ [EvClose h]\<rparr>
      else w)"

text \<open>Reading a closed file object raises \<open>ValueError\<close>.\<close>

fun stream_read :: "stream \<Rightarrow> world \<Rightarrow> pyerr + byte list" where
  "stream_read (MemStream bs) w = Inr bs"
| "stream_read (FileStream h) w =
     (if h < length (handles w)
      then (if snd (handles w ! h) then Inl ValueError else Inr (fst (handles w ! h)))
      else Inl ValueError)"

text \<open>
  \<open>with acquire as f: body\<close> for a file object: when the acquisition raises, the body does
  not run; otherwise the object is closed when the body is left, by return or by
  exception, and the exception is not suppressed.
\<close>

definition py_with ::
  "(world \<Rightarrow> (pyerr + stream) \<times> world) \<Rightarrow> (stream \<Rightarrow> world \<Rightarrow> (pyerr + 'a) \<times> world)
     \<Rightarrow> world \<Rightarrow> (pyerr + 'a) \<times> world" where
  "py_with acquire body w =
     (case acquire w of
        (Inl err, w1) \<Rightarrow> (Inl err, w1)
      | (Inr f, w1) \<Rightarrow> (case body f w1 of (r, w2) \<Rightarrow> (r, stream_close f w2)))"

text \<open>
  \<open>io.BytesIO(initial_bytes)\<close>: \<open>None\<close> gives an empty buffer, a bytes-like object gives
  a buffer with its content, anything else raises \<open>TypeError\<close>.
\<close>

fun BytesIO :: "pyval \<Rightarrow> pyerr + stream" where
  "BytesIO PNone = Inr (MemStream [])"
| "BytesIO (PBytes bs) = Inr (MemStream bs)"
| "BytesIO (PNdarray shape buf) = Inr (MemStream buf)"
| "BytesIO v = Inl TypeError"

text \<open>
  \<open>PIL.Image.open(fp)\<close> is lazy: it reads the stream, as it is at the call, far enough to
  identify the image, and the image object keeps \<open>fp\<close>. The pixel data is not read by
  this call.
\<close>

definition PIL_Image_open :: "env \<Rightarrow> stream \<Rightarrow> world \<Rightarrow> (pyerr + DecodedImage) \<times> world" where
  "PIL_Image_open e fp w =
     (case stream_read fp w of
        Inl err \<Rightarrow> Inl err
      | Inr content \<Rightarrow> pil_open e content,
      w\<lparr>events := events w @ [EvPilOpen fp]\<rparr>)"

text \<open>
  \<open>load()\<close> on an image that was opened on \<open>fp\<close>: the first access to the pixels reads
  the pixel data from \<open>fp\<close>, as it is then. The module never calls it; a caller of
  \<open>decode_example\<close> does, on the image it got back, in the world it got back.
\<close>

definition PIL_Image_load :: "env \<Rightarrow> DecodedImage \<Rightarrow> stream \<Rightarrow> world \<Rightarrow> pyerr + DecodedImage" where
  "PIL_Image_load e img fp w =
     (case stream_read fp w of
        Inl err \<Rightarrow> Inl err
      | Inr content \<Rightarrow>
          (case pil_decode e content of
             Inl err \<Rightarrow> Inl err
           | Inr px \<Rightarrow> Inr (img\<lparr>pixel_buffer := Some px\<rparr>)))"

text \<open>\<open>value["bytes"]\<close> on a \<open>dict\<close>: a missing key raises \<open>KeyError\<close>.\<close>

definition dict_getitem :: "(pyval \<times> pyval) list \<Rightarrow> pyval \<Rightarrow> pyerr + pyval" where
  "dict_getitem kvs k = (case map_of kvs k of None \<Rightarrow> Inl KeyError | Some v \<Rightarrow> Inr v)"

subsection \<open>Decoding\<close>

text \<open>
  \<open>decode_example\<close>. The chain of \<open>isinstance\<close> tests has no \<open>else\<close>: for any other value
  the name \<open>image\<close> is unbound at \<open>return image\<close>, which raises \<open>UnboundLocalError\<close>.
  Under a successful \<open>isinstance\<close> test the inner \<open>case\<close> only names the content of the
  value; its second branch is never reached.
\<close>

definition decode_example :: "env \<Rightarrow> pyval \<Rightarrow> world \<Rightarrow> (pyerr + DecodedImage) \<times> world" where
  "decode_example e v w =
     (if \<not> pil_installed e then (Inl ImportError, w)
      else if isinstance v [Cls_str] then
        (case v of
           PStr path \<Rightarrow> py_with (xopen e path) (PIL_Image_open e) w
         | _ \<Rightarrow> (Inl TypeError, w))
      else if isinstance v [Cls_bytes] then
        (case BytesIO v of
           Inl err \<Rightarrow> (Inl err, w)
         | Inr fp \<Rightarrow> PIL_Image_open e fp w)
      else if isinstance v [Cls_dict] then
        (case v of
           PDict kvs \<Rightarrow>
             (case dict_getitem kvs (PStr ''bytes'') of
                Inl err \<Rightarrow> (Inl err, w)
              | Inr b \<Rightarrow>
                  (case BytesIO b of
                     Inl err \<Rightarrow> (Inl err, w)
                   | Inr fp \<Rightarrow> PIL_Image_open e fp w))
         | _ \<Rightarrow> (Inl TypeError, w))
      else (Inl UnboundLocalError, w))"

subsection \<open>Encoding helpers\<close>

text \<open>
  \<open>image_to_bytes\<close>: a fresh, empty \<open>BytesIO\<close>; \<open>image.save(buffer, format="PNG")\<close>
  appends what the codec writes, or raises; \<open>buffer.getvalue()\<close> is the whole buffer.
\<close>

definition image_to_bytes :: "env \<Rightarrow> DecodedImage \<Rightarrow> pyerr + byte list" where
  "image_to_bytes e img =
     (let buffer = [] in
      case pil_save e img ''PNG'' of
        Inl err \<Rightarrow> Inl err
      | Inr written \<Rightarrow> Inr (buffer @ written))"

fun encode_list_of_images :: "env \<Rightarrow> DecodedImage list \<Rightarrow> pyerr + byte list list" where
  "encode_list_of_images e [] = Inr []"
| "encode_list_of_images e (img # images) =
     (case image_to_bytes e img of
        Inl err \<Rightarrow> Inl err
      | Inr bs \<Rightarrow>
          (case encode_list_of_images e images of
             Inl err \<Rightarrow> Inl err
           | Inr rest \<Rightarrow> Inr (bs # rest)))"

text \<open>The paths that \<open>xopen\<close> has been called with, oldest first.\<close>

fun xopen_calls :: "event list \<Rightarrow> string list" where
  "xopen_calls [] = []"
| "xopen_calls (EvXOpen path # evs) = path # xopen_calls evs"
| "xopen_calls (ev # evs) = xopen_calls evs"

subsection \<open>An environment to run the definitions in\<close>

text \<open>
  A stand-in codec whose file format is the width, the height and then the pixels, one
  byte each, of a greyscale image. It identifies no image in fewer than two bytes. Like
  the PNG writer of Pillow it writes the modes that PNG has a representation for and
  raises \<open>OSError\<close> for any other, \<open>CMYK\<close> among them. The stand-in store holds one file.
  They instantiate the theorems below at concrete inputs.
\<close>

fun demo_open :: "byte list \<Rightarrow> pyerr + DecodedImage" where
  "demo_open (w # h # px) =
     Inr \<lparr>width = unat w, height = unat h, mode = ''L'', pixel_buffer = None,
          format_metadata = ''PNG''\<rparr>"
| "demo_open bs = Inl UnidentifiedImageError"

fun demo_decode :: "byte list \<Rightarrow> pyerr + byte list" where
  "demo_decode (w # h # px) = Inr px"
| "demo_decode bs = Inl OSError"

definition png_modes :: "string list" where
  "png_modes = [''1'', ''L'', ''LA'', ''I'', ''I;16'', ''P'', ''RGB'', ''RGBA'']"

definition demo_save :: "DecodedImage \<Rightarrow> string \<Rightarrow> pyerr + byte list" where
  "demo_save img fmt =
     (if fmt \<noteq> ''PNG'' then Inl ValueError
      else if mode img \<notin> set png_modes then Inl OSError
      else (case pixel_buffer img of
              None \<Rightarrow> Inl ValueError
            | Some px \<Rightarrow> Inr (of_nat (width img) # of_nat (height img) # px)))"

definition demo_lookup :: "string \<Rightarrow> pyerr + byte list" where
  "demo_lookup path = (if path = ''photo.png'' then Inr [2, 1, 7, 9] else Inl FileNotFoundError)"

definition demo_env :: env where
  "demo_env = \<lparr>pil_installed = True, pil_open = demo_open, pil_decode = demo_decode,
                pil_save = demo_save, xopen_lookup = demo_lookup\<rparr>"

definition demo_world :: world where
  "demo_world = \<lparr>handles = [([1, 1, 0], False)], events = [EvXOpen ''earlier.png'']\<rparr>"

text \<open>A loaded image of one pixel in the mode \<open>CMYK\<close>, as a CMYK JPEG file decodes to.\<close>

definition demo_cmyk_image :: DecodedImage where
  "demo_cmyk_image = \<lparr>width = 1, height = 1, mode = ''CMYK'',
                        pixel_buffer = Some [0, 0, 0, 255], format_metadata = ''JPEG''\<rparr>"

section \<open>Supporting lemmas\<close>

lemma xopen_calls_append: "xopen_calls (xs @ ys) = xopen_calls xs @ xopen_calls ys"
  by (induction xs rule: xopen_calls.induct) simp_all

text \<open>Decoding a \<open>dict\<close> creates and closes no file object and never calls \<open>xopen\<close>.\<close>

lemma decode_example_dict_world:
  "handles (snd (decode_example e (PDict kvs) w)) = handles w
   \<and> xopen_calls (events (snd (decode_example e (PDict kvs) w))) = xopen_calls (events w)"
  by (simp add: decode_example_def isinstance_def dict_getitem_def PIL_Image_open_def
      xopen_calls_append split: option.splits sum.splits)

lemma decode_example_dict_lookup:
  "map_of kvs' (PStr ''bytes'') = map_of kvs (PStr ''bytes'')
     \<Longrightarrow> decode_example e (PDict kvs') w = decode_example e (PDict kvs) w"
  by (simp add: decode_example_def isinstance_def dict_getitem_def)

text \<open>A file object that is appended already closed adds nothing to the open ones.\<close>

lemma open_handles_closed_snoc:
  "open_handles (w\<lparr>handles := handles w @ [(content, True)], events := evs\<rparr>) = open_handles w"
proof -
  have "filter (\<lambda>h. \<not> snd ((handles w @ [(content, True)]) ! h)) [0..<length (handles w)]
          = filter (\<lambda>h. \<not> snd (handles w ! h)) [0..<length (handles w)]"
    by (rule filter_cong) (simp_all add: nth_append)
  then show ?thesis by (simp add: open_handles_def)
qed

lemma open_handles_events: "open_handles (w\<lparr>events := evs\<rparr>) = open_handles w"
  by (simp add: open_handles_def)

text \<open>The two ways through the \<open>with\<close> block of the \<open>str\<close> branch.\<close>

lemma decode_example_path_failed:
  assumes "pil_installed e" and "xopen_lookup e path = Inl err"
  shows "decode_example e (PStr path) w = (Inl err, w\<lparr>events := events w @ [EvXOpen path]\<rparr>)"
  using assms by (simp add: decode_example_def isinstance_def py_with_def xopen_def)

lemma decode_example_path_opened:
  assumes "pil_installed e" and "xopen_lookup e path = Inr content"
  shows "decode_example e (PStr path) w =
           (pil_open e content,
            w\<lparr>handles := handles w @ [(content, True)],
              events := events w @ [EvXOpen path, EvPilOpen (FileStream (length (handles w))),
                                    EvClose (length (handles w))]\<rparr>)"
  using assms
  by (simp add: decode_example_def isinstance_def py_with_def xopen_def PIL_Image_open_def)

text \<open>
  On every way out of the \<open>str\<close> branch the file objects that are open afterwards are
  those that were open before: the \<open>with\<close> block leaks nothing.
\<close>

lemma decode_example_path_releases:
  "open_handles (snd (decode_example e (PStr path) w)) = open_handles w"
proof (cases "pil_installed e")
  case False
  then show ?thesis by (simp add: decode_example_def)
next
  case True
  show ?thesis
  proof (cases "xopen_lookup e path")
    case (Inl err)
    with True show ?thesis
      by (simp add: decode_example_path_failed open_handles_events)
  next
    case (Inr content)
    with True show ?thesis
      by (simp add: decode_example_path_opened open_handles_closed_snoc)
  qed
qed

text \<open>
  Whatever the file and the codec: once \<open>decode_example\<close> has returned from the \<open>str\<close>
  branch, the stream that the image was opened on is closed, so loading any image from it
  raises \<open>ValueError\<close>. After the \<open>bytes\<close> branch the stream is readable and loading is
  up to the codec.
\<close>

lemma decode_example_path_load_fails:
  assumes "pil_installed e" and "xopen_lookup e path = Inr content"
  shows "PIL_Image_load e img (FileStream (length (handles w)))
           (snd (decode_example e (PStr path) w)) = Inl ValueError"
  using assms by (simp add: decode_example_path_opened PIL_Image_load_def)

lemma decode_example_bytes_load:
  "PIL_Image_load e img (MemStream bs) (snd (decode_example e (PBytes bs) w))
     = (case pil_decode e bs of Inl err \<Rightarrow> Inl err
        | Inr px \<Rightarrow> Inr (img\<lparr>pixel_buffer := Some px\<rparr>))"
  by (simp add: PIL_Image_load_def)

text \<open>\<open>image_to_bytes\<close> is the PNG writer of the codec, errors included.\<close>

lemma image_to_bytes_save: "image_to_bytes e img = pil_save e img ''PNG''"
  by (simp add: image_to_bytes_def split: sum.splits)

text \<open>The storage types that the constructor picks for the three shapes.\<close>

lemma ImageExtensionType_init_shapes:
  "storage_type (ImageExtensionType_init ''string'') = Pa_string"
  "storage_type (ImageExtensionType_init ''bytes'') = Pa_binary"
  "storage_type (ImageExtensionType_init ''struct'')
     = Pa_struct [(''path'', Pa_string), (''bytes'', Pa_binary)]"
  by (simp_all add: ImageExtensionType_init_def)

lemma Image_call_default: "storage_type (Image_call Image_default) = Pa_string"
  by (simp add: Image_call_def Image_default_def ImageExtensionType_init_def)

text \<open>A batch that encodes has one result per image, in order.\<close>

lemma encode_list_of_images_length:
  "encode_list_of_images e images = Inr bss \<Longrightarrow> length bss = length images"
  by (induction images arbitrary: bss) (auto split: sum.splits)

section \<open>The PNG round trip\<close>

text \<open>
  C1. The claim is that for every image \<open>i\<close>, decoding the bytes of \<open>image_to_bytes(i)\<close>
  gives back the pixel content of \<open>i\<close>, and the docstring of \<open>image_to_bytes\<close> promises
  a lossless conversion. The code does not keep it for every image: it asks the codec for
  PNG whatever the mode of the image, with no test of the mode and no other format to
  fall back on. For an image in the mode \<open>CMYK\<close>, which PNG cannot hold, the error of
  the codec is the result of \<open>image_to_bytes\<close> and of the whole batch in
  \<open>encode_list_of_images\<close>: there are no bytes to decode.
\<close>

theorem image_to_bytes_cmyk_raises:
  "pil_save demo_env demo_cmyk_image ''PNG'' = Inl OSError
   \<and> image_to_bytes demo_env demo_cmyk_image = Inl OSError
   \<and> encode_list_of_images demo_env [demo_cmyk_image] = Inl OSError"
  by (simp add: image_to_bytes_def demo_env_def demo_save_def demo_cmyk_image_def
      png_modes_def)

section \<open>Decoding a path\<close>

text \<open>
  C2. The claim is that the stream of \<open>xopen\<close> is released only after the image is fully
  materialized. The code releases it earlier. For the one file of the stand-in store,
  \<open>decode_example\<close> returns an image that is identified but not loaded, the only calls
  it has made are \<open>xopen\<close>, \<open>PIL.Image.open\<close> and the close of the \<open>with\<close> block, and
  the stream is closed on return: loading the returned image raises \<open>ValueError\<close>. The
  same bytes handed over as \<open>bytes\<close> take the sibling branch, whose \<open>BytesIO\<close> is never
  closed: there the returned image loads, and its pixels are those of the file.
\<close>

theorem decode_example_path_closed_before_load:
  "decode_example demo_env (PStr ''photo.png'') demo_world
     = (Inr \<lparr>width = 2, height = 1, mode = ''L'', pixel_buffer = None,
             format_metadata = ''PNG''\<rparr>,
        \<lparr>handles = [([1, 1, 0], False), ([2, 1, 7, 9], True)],
         events = [EvXOpen ''earlier.png'', EvXOpen ''photo.png'',
                   EvPilOpen (FileStream 1), EvClose 1]\<rparr>)
   \<and> PIL_Image_load demo_env
         \<lparr>width = 2, height = 1, mode = ''L'', pixel_buffer = None, format_metadata = ''PNG''\<rparr>
         (FileStream 1) (snd (decode_example demo_env (PStr ''photo.png'') demo_world))
       = Inl ValueError
   \<and> decode_example demo_env (PBytes [2, 1, 7, 9]) demo_world
     = (Inr \<lparr>width = 2, height = 1, mode = ''L'', pixel_buffer = None,
             format_metadata = ''PNG''\<rparr>,
        \<lparr>handles = [([1, 1, 0], False)],
         events = [EvXOpen ''earlier.png'', EvPilOpen (MemStream [2, 1, 7, 9])]\<rparr>)
   \<and> PIL_Image_load demo_env
         \<lparr>width = 2, height = 1, mode = ''L'', pixel_buffer = None, format_metadata = ''PNG''\<rparr>
         (MemStream [2, 1, 7, 9]) (snd (decode_example demo_env (PBytes [2, 1, 7, 9]) demo_world))
       = Inr \<lparr>width = 2, height = 1, mode = ''L'', pixel_buffer = Some [7, 9],
              format_metadata = ''PNG''\<rparr>"
  by (simp add: decode_example_def isinstance_def py_with_def xopen_def PIL_Image_open_def
      PIL_Image_load_def demo_env_def demo_lookup_def demo_world_def)

section \<open>Encoding\<close>

text \<open>
  C3. For every plain string and every prior storage shape, \<open>encode_example\<close> returns the
  string unchanged and leaves the feature, in particular \<open>_storage_dtype\<close>, exactly as it
  was before the call.
\<close>

theorem encode_example_str:
  "encode_example self (PStr s) = (PStr s, self)"
  by (simp add: encode_example_def isinstance_def)

text \<open>
  C4. For every bytes value, \<open>encode_example\<close> returns the bytes unchanged and sets
  \<open>_storage_dtype\<close> to \<open>"bytes"\<close>; the other fields of the feature stay as they were.
\<close>

theorem encode_example_bytes:
  "encode_example self (PBytes bs) = (PBytes bs, self\<lparr>x_storage_dtype := ''bytes''\<rparr>)"
  by (simp add: encode_example_def isinstance_def)

text \<open>
  C5. For every \<open>dict\<close>, whatever its keys and values (so without any check of a
  \<open>bytes\<close> entry), \<open>encode_example\<close> returns the \<open>dict\<close> unchanged and sets
  \<open>_storage_dtype\<close> to \<open>"struct"\<close>.
\<close>

theorem encode_example_dict:
  "encode_example self (PDict kvs) = (PDict kvs, self\<lparr>x_storage_dtype := ''struct''\<rparr>)"
  by (simp add: encode_example_def isinstance_def)

section \<open>Decoding a mapping\<close>

text \<open>
  C6. For every \<open>dict\<close> handed to \<open>decode_example\<close>, the entry \<open>bytes\<close> alone is
  decoded. Two mappings with the same \<open>bytes\<close> entry decode alike, whatever \<open>path\<close> and
  the other entries are; a mapping whose \<open>bytes\<close> entry is a bytes value decodes as
  these bytes do on their own, that is, the codec is called on an in-memory stream of
  them; and no file object is created or closed and \<open>xopen\<close> is not called.
\<close>

theorem decode_example_mapping:
  "(map_of kvs' (PStr ''bytes'') = map_of kvs (PStr ''bytes'') \<longrightarrow>
      decode_example e (PDict kvs') w = decode_example e (PDict kvs) w)
   \<and> (map_of kvs (PStr ''bytes'') = Some (PBytes bs) \<longrightarrow>
      decode_example e (PDict kvs) w = decode_example e (PBytes bs) w)
   \<and> (pil_installed e \<and> map_of kvs (PStr ''bytes'') = Some (PBytes bs) \<longrightarrow>
      decode_example e (PDict kvs) w
        = (pil_open e bs, w\<lparr>events := events w @ [EvPilOpen (MemStream bs)]\<rparr>))
   \<and> handles (snd (decode_example e (PDict kvs) w)) = handles w
   \<and> xopen_calls (events (snd (decode_example e (PDict kvs) w))) = xopen_calls (events w)"
proof (intro conjI impI)
  assume "map_of kvs' (PStr ''bytes'') = map_of kvs (PStr ''bytes'')"
  then show "decode_example e (PDict kvs') w = decode_example e (PDict kvs) w"
    by (rule decode_example_dict_lookup)
next
  assume "map_of kvs (PStr ''bytes'') = Some (PBytes bs)"
  then show "decode_example e (PDict kvs) w = decode_example e (PBytes bs) w"
    by (simp add: decode_example_def isinstance_def dict_getitem_def)
next
  assume "pil_installed e \<and> map_of kvs (PStr ''bytes'') = Some (PBytes bs)"
  then show "decode_example e (PDict kvs) w
        = (pil_open e bs, w\<lparr>events := events w @ [EvPilOpen (MemStream bs)]\<rparr>)"
    by (simp add: decode_example_def isinstance_def dict_getitem_def PIL_Image_open_def)
next
  show "handles (snd (decode_example e (PDict kvs) w)) = handles w"
    by (simp add: decode_example_dict_world)
next
  show "xopen_calls (events (snd (decode_example e (PDict kvs) w))) = xopen_calls (events w)"
    by (simp add: decode_example_dict_world)
qed

text \<open>
  A mapping whose \<open>path\<close> names the one file of the stand-in store and whose \<open>bytes\<close>
  hold another image: the image of \<open>bytes\<close> comes back and the file is not opened.
\<close>

theorem decode_example_mapping_witness:
  "map_of [(PStr ''bytes'', PBytes [1, 1, 5])] (PStr ''bytes'')
     = map_of [(PStr ''path'', PStr ''photo.png''), (PStr ''bytes'', PBytes [1, 1, 5])]
         (PStr ''bytes'')
   \<and> decode_example demo_env (PDict [(PStr ''bytes'', PBytes [1, 1, 5])]) demo_world
     = decode_example demo_env
         (PDict [(PStr ''path'', PStr ''photo.png''), (PStr ''bytes'', PBytes [1, 1, 5])])
         demo_world
   \<and> pil_installed demo_env
   \<and> map_of [(PStr ''path'', PStr ''photo.png''), (PStr ''bytes'', PBytes [1, 1, 5])]
         (PStr ''bytes'') = Some (PBytes [1, 1, 5])
   \<and> decode_example demo_env
         (PDict [(PStr ''path'', PStr ''photo.png''), (PStr ''bytes'', PBytes [1, 1, 5])])
         demo_world
     = (Inr \<lparr>width = 1, height = 1, mode = ''L'', pixel_buffer = None,
            format_metadata = ''PNG''\<rparr>,
        \<lparr>handles = [([1, 1, 0], False)],
         events = [EvXOpen ''earlier.png'', EvPilOpen (MemStream [1, 1, 5])]\<rparr>)"
proof -
  note m = decode_example_mapping
    [of "[(PStr ''bytes'', PBytes [1, 1, 5])]"
        "[(PStr ''path'', PStr ''photo.png''), (PStr ''bytes'', PBytes [1, 1, 5])]"
        demo_env demo_world "[1, 1, 5]"]
  have same: "map_of [(PStr ''bytes'', PBytes [1, 1, 5])] (PStr ''bytes'')
     = map_of [(PStr ''path'', PStr ''photo.png''), (PStr ''bytes'', PBytes [1, 1, 5])]
         (PStr ''bytes'')"
    by simp
  have inst: "pil_installed demo_env"
    by (simp add: demo_env_def)
  have entry: "map_of [(PStr ''path'', PStr ''photo.png''), (PStr ''bytes'', PBytes [1, 1, 5])]
         (PStr ''bytes'') = Some (PBytes [1, 1, 5])"
    by simp
  from m same have alike:
    "decode_example demo_env (PDict [(PStr ''bytes'', PBytes [1, 1, 5])]) demo_world
     = decode_example demo_env
         (PDict [(PStr ''path'', PStr ''photo.png''), (PStr ''bytes'', PBytes [1, 1, 5])])
         demo_world"
    by blast
  from m inst entry have "decode_example demo_env
         (PDict [(PStr ''path'', PStr ''photo.png''), (PStr ''bytes'', PBytes [1, 1, 5])])
         demo_world
     = (pil_open demo_env [1, 1, 5],
        demo_world\<lparr>events := events demo_world @ [EvPilOpen (MemStream [1, 1, 5])]\<rparr>)"
    by blast
  then have result: "decode_example demo_env
         (PDict [(PStr ''path'', PStr ''photo.png''), (PStr ''bytes'', PBytes [1, 1, 5])])
         demo_world
     = (Inr \<lparr>width = 1, height = 1, mode = ''L'', pixel_buffer = None,
            format_metadata = ''PNG''\<rparr>,
        \<lparr>handles = [([1, 1, 0], False)],
         events = [EvXOpen ''earlier.png'', EvPilOpen (MemStream [1, 1, 5])]\<rparr>)"
    by (simp add: demo_env_def demo_world_def)
  from same alike inst entry result show ?thesis
    by (intro conjI)
qed

section \<open>Decoding anything else\<close>

text \<open>
  C7. For every value that is not a \<open>str\<close>, not \<open>bytes\<close> and not a \<open>dict\<close>,
  \<open>decode_example\<close> raises: \<open>ImportError\<close> when the codec cannot be imported, and
  otherwise \<open>UnboundLocalError\<close> at \<open>return image\<close>. It returns no image and touches
  nothing.
\<close>

theorem decode_example_unsupported:
  "\<not> isinstance v [Cls_str] \<Longrightarrow> \<not> isinstance v [Cls_bytes] \<Longrightarrow> \<not> isinstance v [Cls_dict]
     \<Longrightarrow> decode_example e v w
           = (Inl (if pil_installed e then UnboundLocalError else ImportError), w)"
  by (simp add: decode_example_def)

theorem decode_example_unsupported_witness:
  "\<not> isinstance (PInt 3) [Cls_str] \<and> \<not> isinstance (PInt 3) [Cls_bytes]
   \<and> \<not> isinstance (PInt 3) [Cls_dict]
   \<and> decode_example demo_env (PInt 3) demo_world = (Inl UnboundLocalError, demo_world)"
  using decode_example_unsupported [of "PInt 3" demo_env demo_world]
  by (simp add: isinstance_def demo_env_def)

section \<open>Pickling the extension type\<close>

text \<open>
  C8. For every storage shape, in particular \<open>"string"\<close>, \<open>"bytes"\<close> and \<open>"struct"\<close>:
  \<open>__reduce__\<close> of the extension type built for the shape returns the class and the
  1-tuple of the shape, and calling the class on that tuple gives an extension type equal
  to the one built directly: the same class, the same \<open>storage_dtype\<close> and the same
  storage type.
\<close>

theorem reduce_reconstruct:
  "reconstruct (ImageExtensionType_reduce (ImageExtensionType_init sd))
     = Inr (ImageExtensionType_init sd)
   \<and> ImageExtensionType_reduce (ImageExtensionType_init sd) = (Cls_ImageExtensionType, [sd])"
  by (simp add: ImageExtensionType_reduce_def ImageExtensionType_init_def Let_def)

section \<open>A mapping without bytes\<close>

text \<open>
  C9, as the code has it. Once the codec is importable: a \<open>dict\<close> with no key \<open>bytes\<close>
  makes \<open>decode_example\<close> raise \<open>KeyError\<close>, with nothing touched; a \<open>dict\<close> whose
  \<open>bytes\<close> is \<open>None\<close> raises no lookup or type error, since \<open>BytesIO(None)\<close> is an empty
  stream: the codec is called on the empty stream and its answer is the result. In
  neither case, and for no \<open>dict\<close> at all, is \<open>xopen\<close> called or a file object opened, so
  \<open>path\<close> is never a fallback.
\<close>

theorem decode_example_no_bytes:
  "(pil_installed e \<and> map_of kvs (PStr ''bytes'') = None \<longrightarrow>
      decode_example e (PDict kvs) w = (Inl KeyError, w))
   \<and> (pil_installed e \<and> map_of kvs (PStr ''bytes'') = Some PNone \<longrightarrow>
      decode_example e (PDict kvs) w
        = (pil_open e [], w\<lparr>events := events w @ [EvPilOpen (MemStream [])]\<rparr>))
   \<and> xopen_calls (events (snd (decode_example e (PDict kvs) w))) = xopen_calls (events w)
   \<and> open_handles (snd (decode_example e (PDict kvs) w)) = open_handles w"
proof (intro conjI impI)
  assume "pil_installed e \<and> map_of kvs (PStr ''bytes'') = None"
  then show "decode_example e (PDict kvs) w = (Inl KeyError, w)"
    by (simp add: decode_example_def isinstance_def dict_getitem_def)
next
  assume "pil_installed e \<and> map_of kvs (PStr ''bytes'') = Some PNone"
  then show "decode_example e (PDict kvs) w
        = (pil_open e [], w\<lparr>events := events w @ [EvPilOpen (MemStream [])]\<rparr>)"
    by (simp add: decode_example_def isinstance_def dict_getitem_def PIL_Image_open_def)
next
  show "xopen_calls (events (snd (decode_example e (PDict kvs) w))) = xopen_calls (events w)"
    by (simp add: decode_example_dict_world)
next
  show "open_handles (snd (decode_example e (PDict kvs) w)) = open_handles w"
    by (simp add: open_handles_def decode_example_dict_world)
qed

theorem decode_example_no_bytes_witness:
  "pil_installed demo_env
   \<and> map_of [(PStr ''path'', PStr ''photo.png'')] (PStr ''bytes'') = None
   \<and> decode_example demo_env (PDict [(PStr ''path'', PStr ''photo.png'')]) demo_world
       = (Inl KeyError, demo_world)
   \<and> map_of [(PStr ''path'', PStr ''photo.png''), (PStr ''bytes'', PNone)] (PStr ''bytes'')
       = Some PNone
   \<and> decode_example demo_env
        (PDict [(PStr ''path'', PStr ''photo.png''), (PStr ''bytes'', PNone)]) demo_world
       = (Inl UnidentifiedImageError,
          demo_world\<lparr>events := events demo_world @ [EvPilOpen (MemStream [])]\<rparr>)"
  using decode_example_no_bytes [of demo_env "[(PStr ''path'', PStr ''photo.png'')]" demo_world]
    decode_example_no_bytes
      [of demo_env "[(PStr ''path'', PStr ''photo.png''), (PStr ''bytes'', PNone)]" demo_world]
  by (simp add: demo_env_def)

text \<open>
  Where C9 as first stated fails: at \<open>{"path": "photo.png", "bytes": None}\<close> reading
  the \<open>bytes\<close> entry raises neither \<open>KeyError\<close> nor \<open>TypeError\<close>. The codec is reached,
  on an empty stream, and the error that comes back is the codec's.
\<close>

theorem decode_example_bytes_None_counterexample:
  "decode_example demo_env
     (PDict [(PStr ''path'', PStr ''photo.png''), (PStr ''bytes'', PNone)]) demo_world
     = (Inl UnidentifiedImageError,
        \<lparr>handles = [([1, 1, 0], False)],
         events = [EvXOpen ''earlier.png'', EvPilOpen (MemStream [])]\<rparr>)
   \<and> fst (decode_example demo_env
        (PDict [(PStr ''path'', PStr ''photo.png''), (PStr ''bytes'', PNone)]) demo_world)
       \<noteq> Inl KeyError
   \<and> fst (decode_example demo_env
        (PDict [(PStr ''path'', PStr ''photo.png''), (PStr ''bytes'', PNone)]) demo_world)
       \<noteq> Inl TypeError"
  by (simp add: decode_example_def isinstance_def dict_getitem_def PIL_Image_open_def
      demo_env_def demo_world_def)

section \<open>Encoding an array\<close>

text \<open>
  C10. For every \<open>numpy.ndarray\<close>, \<open>encode_example\<close> sets \<open>_storage_dtype\<close> to
  \<open>"bytes"\<close> and returns the array itself: the result is still an array, not bytes.
\<close>

theorem encode_example_ndarray:
  "encode_example self (PNdarray shape buf)
     = (PNdarray shape buf, self\<lparr>x_storage_dtype := ''bytes''\<rparr>)
   \<and> class_of (fst (encode_example self (PNdarray shape buf))) = Cls_ndarray"
  by (simp add: encode_example_def isinstance_def)

end
